theory Spec2Isabelle
  imports Complex_Main
begin

section \<open>JavaScript values\<close>

text \<open>
  The values the server handles: what \<^verbatim>\<open>JSON.parse\<close> produces, together with
  \<^verbatim>\<open>undefined\<close> (an absent property, an absent argument) and \<^verbatim>\<open>NaN\<close> (what
  \<^verbatim>\<open>parseInt\<close> returns on a string without digits). Numbers are the rationals: every
  number of a JSON document and every constant of the source is one (the rounding of a double
  is left out). An object is its list of properties; for a name bound twice the first binding
  counts. A character of a string is a code point below 256.
\<close>

datatype jsval =
    JUndefined
  | JNull
  | JBool bool
  | JNum rat
  | JNaN
  | JStr string
  | JArr "jsval list"
  | JObj "(string \<times> jsval) list"

text \<open>\<^verbatim>\<open>o[k]\<close> for an object \<open>o\<close> given by its property list.\<close>

definition lookup :: "(string \<times> jsval) list \<Rightarrow> string \<Rightarrow> jsval" where
  "lookup kvs k = (case map_of kvs k of None \<Rightarrow> JUndefined | Some v \<Rightarrow> v)"

text \<open>\<^verbatim>\<open>k in o\<close>.\<close>

definition has_key :: "(string \<times> jsval) list \<Rightarrow> string \<Rightarrow> bool" where
  "has_key kvs k = (map_of kvs k \<noteq> None)"

text \<open>JavaScript's truthiness, which decides \<^verbatim>\<open>a || b\<close> and \<^verbatim>\<open>!a\<close>.\<close>

fun truthy :: "jsval \<Rightarrow> bool" where
  "truthy JUndefined = False"
| "truthy JNull = False"
| "truthy (JBool b) = b"
| "truthy (JNum n) = (n \<noteq> 0)"
| "truthy JNaN = False"
| "truthy (JStr s) = (s \<noteq> [])"
| "truthy (JArr _) = True"
| "truthy (JObj _) = True"

definition js_or :: "jsval \<Rightarrow> jsval \<Rightarrow> jsval" where
  "js_or a b = (if truthy a then a else b)"

text \<open>Decimal rendering of a natural number, as a template literal renders a status code.\<close>

fun show_nat :: "nat \<Rightarrow> string" where
  "show_nat n = (if n < 10 then [''0123456789'' ! n]
                 else show_nat (n div 10) @ [''0123456789'' ! (n mod 10)])"

declare show_nat.simps [simp del]

text \<open>\<^verbatim>\<open>xs.join(sep)\<close> on a list of strings.\<close>

fun join :: "string \<Rightarrow> string list \<Rightarrow> string" where
  "join sep [] = []"
| "join sep [x] = x"
| "join sep (x # y # ys) = x @ sep @ join sep (y # ys)"

section \<open>Errors\<close>

text \<open>
  The three kinds of exception the source tells apart with \<^verbatim>\<open>instanceof\<close>: the protocol's
  \<^verbatim>\<open>McpError\<close> with its code and message, the schema library's \<^verbatim>\<open>ZodError\<close> with its
  issues (path and message each), and every other error (\<^verbatim>\<open>Error\<close>, \<^verbatim>\<open>TypeError\<close>, the
  HTTP client's errors), given by the value of its \<^verbatim>\<open>message\<close>.
\<close>

datatype ErrorCode = InvalidRequest | MethodNotFound | InvalidParams | InternalError

type_synonym issue = "string list \<times> string"

datatype js_error =
    McpError ErrorCode string
  | ZodError "issue list"
  | Error jsval

text \<open>
  Reading property \<open>p\<close> of a value: \<^verbatim>\<open>undefined\<close> and \<^verbatim>\<open>null\<close> throw a TypeError
  (the result is its message), an object yields the property, every other value yields \<^verbatim>\<open>undefined\<close> (the source reads only
  \<^verbatim>\<open>api_key\<close>, \<^verbatim>\<open>error\<close> and \<^verbatim>\<open>credits\<close>, which no prototype defines).
\<close>

definition typeError_message :: "string \<Rightarrow> string \<Rightarrow> string" where
  "typeError_message what p =
     ''Cannot read properties of '' @ what @ '' (reading '' @ [CHR 0x27] @ p @ [CHR 0x27] @ '')''"

fun get_prop :: "jsval \<Rightarrow> string \<Rightarrow> string + jsval" where
  "get_prop JUndefined p = Inl (typeError_message ''undefined'' p)"
| "get_prop JNull p = Inl (typeError_message ''null'' p)"
| "get_prop (JObj kvs) p = Inr (lookup kvs p)"
| "get_prop _ p = Inr JUndefined"

text \<open>The same read on a value a schema has accepted as an object.\<close>

definition jget :: "jsval \<Rightarrow> string \<Rightarrow> jsval" where
  "jget v p = (case v of JObj kvs \<Rightarrow> lookup kvs p | _ \<Rightarrow> JUndefined)"

section \<open>The schema library\<close>

text \<open>
  The part of zod 3 the schemas of the source use. A schema maps a value to the parsed value
  or to the issues found; the path of an issue is relative to the value parsed. All checks of
  a schema run, and an object schema parses all its fields, so every issue is reported, in
  the order of the declarations.
\<close>

type_synonym schema = "jsval \<Rightarrow> issue list + jsval"

fun typeName :: "jsval \<Rightarrow> string" where
  "typeName JUndefined = ''undefined''"
| "typeName JNull = ''null''"
| "typeName (JBool _) = ''boolean''"
| "typeName (JNum _) = ''number''"
| "typeName JNaN = ''nan''"
| "typeName (JStr _) = ''string''"
| "typeName (JArr _) = ''array''"
| "typeName (JObj _) = ''object''"

definition invalid_type :: "string \<Rightarrow> jsval \<Rightarrow> issue" where
  "invalid_type expected v =
     ([], if v = JUndefined then ''Required''
          else ''Expected '' @ expected @ '', received '' @ typeName v)"

text \<open>A check maps the value to the messages of the issues it raises.\<close>

definition run_checks :: "('a \<Rightarrow> string list) list \<Rightarrow> 'a \<Rightarrow> issue list" where
  "run_checks cs x = map (\<lambda>m. ([], m)) (concat (map (\<lambda>c. c x) cs))"

text \<open>\<^verbatim>\<open>z.string()\<close> with its checks \<^verbatim>\<open>.min(n, message)\<close> and \<^verbatim>\<open>.url(message)\<close>.\<close>

definition z_string :: "(string \<Rightarrow> string list) list \<Rightarrow> schema" where
  "z_string cs v =
     (case v of
        JStr s \<Rightarrow> (case run_checks cs s of [] \<Rightarrow> Inr v | i # is \<Rightarrow> Inl (i # is))
      | _ \<Rightarrow> Inl [invalid_type ''string'' v])"

definition str_min :: "nat \<Rightarrow> string \<Rightarrow> string \<Rightarrow> string list" where
  "str_min n message s = (if length s < n then [message] else [])"

definition str_url :: "(string \<Rightarrow> bool) \<Rightarrow> string \<Rightarrow> string \<Rightarrow> string list" where
  "str_url isUrl message s = (if isUrl s then [] else [message])"

text \<open>\<^verbatim>\<open>z.number()\<close> with its checks \<^verbatim>\<open>.int()\<close>, \<^verbatim>\<open>.min(n)\<close> and \<^verbatim>\<open>.max(n)\<close>.\<close>

definition z_number :: "(rat \<Rightarrow> string list) list \<Rightarrow> schema" where
  "z_number cs v =
     (case v of
        JNum x \<Rightarrow> (case run_checks cs x of [] \<Rightarrow> Inr v | i # is \<Rightarrow> Inl (i # is))
      | _ \<Rightarrow> Inl [invalid_type ''number'' v])"

definition num_int :: "rat \<Rightarrow> string list" where
  "num_int x = (if of_int \<lfloor>x\<rfloor> = x then [] else [''Expected integer, received float''])"

definition num_min :: "nat \<Rightarrow> rat \<Rightarrow> string list" where
  "num_min n x =
     (if x < of_nat n then [''Number must be greater than or equal to '' @ show_nat n] else [])"

definition num_max :: "nat \<Rightarrow> rat \<Rightarrow> string list" where
  "num_max n x =
     (if of_nat n < x then [''Number must be less than or equal to '' @ show_nat n] else [])"

text \<open>\<^verbatim>\<open>.optional()\<close>, \<^verbatim>\<open>.nullable()\<close> and \<^verbatim>\<open>.default(d)\<close>.\<close>

definition z_optional :: "schema \<Rightarrow> schema" where
  "z_optional inner v = (if v = JUndefined then Inr JUndefined else inner v)"

definition z_nullable :: "schema \<Rightarrow> schema" where
  "z_nullable inner v = (if v = JNull then Inr JNull else inner v)"

definition z_default :: "jsval \<Rightarrow> schema \<Rightarrow> schema" where
  "z_default d inner v = inner (if v = JUndefined then d else v)"

text \<open>
  \<^verbatim>\<open>z.object(shape)\<close>: a value that is not an object is one issue; otherwise each field of
  the shape is parsed from the property of its name, the issues of a field get the field's
  name in front of their paths, and the result has the fields of the shape only: a property
  the shape does not declare is dropped, and a field parsed to \<^verbatim>\<open>undefined\<close> is kept only
  if the input has the property.
\<close>

definition field_issues :: "string \<Rightarrow> issue list + jsval \<Rightarrow> issue list" where
  "field_issues k r = (case r of Inl is \<Rightarrow> map (\<lambda>(p, m). (k # p, m)) is | Inr _ \<Rightarrow> [])"

definition field_output ::
  "(string \<times> jsval) list \<Rightarrow> string \<Rightarrow> issue list + jsval \<Rightarrow> (string \<times> jsval) list" where
  "field_output kvs k r =
     (case r of
        Inl _ \<Rightarrow> []
      | Inr v \<Rightarrow> (if v = JUndefined \<and> \<not> has_key kvs k then [] else [(k, v)]))"

definition z_object :: "(string \<times> schema) list \<Rightarrow> schema" where
  "z_object shape v =
     (case v of
        JObj kvs \<Rightarrow>
          (case concat (map (\<lambda>(k, s). field_issues k (s (lookup kvs k))) shape) of
             [] \<Rightarrow> Inr (JObj (concat (map (\<lambda>(k, s). field_output kvs k (s (lookup kvs k))) shape)))
           | i # is \<Rightarrow> Inl (i # is))
      | _ \<Rightarrow> Inl [invalid_type ''object'' v])"

text \<open>
  What the schema library and the runtime decide outside this repository: whether a string
  parses as an absolute URL (\<^verbatim>\<open>.url()\<close> asks the URL constructor), the text of a
  \<^verbatim>\<open>ZodError\<close>'s \<^verbatim>\<open>message\<close> (a JSON rendering of its issues), and the decimal
  rendering of a number that is not an integer below \<open>10^21\<close> (the shortest digits that
  read back as the same double).
\<close>

record platform =
  isUrl :: "string \<Rightarrow> bool"
  zodErrorMessage :: "issue list \<Rightarrow> string"
  numberToString :: "rat \<Rightarrow> string"

section \<open>Conversion to a string\<close>

text \<open>
  \<^verbatim>\<open>String(v)\<close>, the conversion the constructor \<^verbatim>\<open>new Error(v)\<close> applies to its
  argument. An object converts to \<^verbatim>\<open>[object Object]\<close> through the \<^verbatim>\<open>toString\<close> of its
  prototype; an object parsed from JSON that has a property \<^verbatim>\<open>toString\<close> of its own
  hides that method by a value that is no function, and the conversion throws a TypeError
  (the result \<open>None\<close>). An array converts to its elements' conversions joined by commas,
  \<^verbatim>\<open>null\<close> and \<^verbatim>\<open>undefined\<close> elements to nothing.
\<close>

definition show_integer :: "int \<Rightarrow> string" where
  "show_integer i = (if i < 0 then ''-'' @ show_nat (nat (- i)) else show_nat (nat i))"

fun js_String :: "(rat \<Rightarrow> string) \<Rightarrow> jsval \<Rightarrow> string option" where
  "js_String num JUndefined = Some ''undefined''"
| "js_String num JNull = Some ''null''"
| "js_String num (JBool b) = Some (if b then ''true'' else ''false'')"
| "js_String num (JNum x) =
     Some (if of_int \<lfloor>x\<rfloor> = x \<and> \<bar>x\<bar> < 10 ^ 21 then show_integer \<lfloor>x\<rfloor> else num x)"
| "js_String num JNaN = Some ''NaN''"
| "js_String num (JStr s) = Some s"
| "js_String num (JArr xs) =
     map_option (join '','')
       (those (map (\<lambda>x. if x = JUndefined \<or> x = JNull then Some [] else js_String num x) xs))"
| "js_String num (JObj kvs) = (if has_key kvs ''toString'' then None else Some ''[object Object]'')"

text \<open>What \<^verbatim>\<open>throw new Error(v)\<close> throws: the error with the message \<^verbatim>\<open>String(v)\<close>, or
  the TypeError of the conversion.\<close>

definition new_Error :: "platform \<Rightarrow> jsval \<Rightarrow> js_error" where
  "new_Error P v =
     (case js_String (numberToString P) v of
        None \<Rightarrow> Error (JStr ''Cannot convert object to primitive value'')
      | Some s \<Rightarrow> Error (JStr s))"

section \<open>The schemas of the source\<close>

definition VideoToAudioInputSchema :: "platform \<Rightarrow> schema" where
  "VideoToAudioInputSchema P = z_object
     [(''video_url'', z_string [str_url (isUrl P) ''Invalid video URL'']),
      (''prompt'', z_string [str_min 1 ''Prompt is required'']),
      (''negative_prompt'', z_default (JStr []) (z_optional (z_string []))),
      (''seed'', z_nullable (z_optional (z_number [num_int]))),
      (''num_steps'', z_default (JNum 25) (z_number [num_int, num_min 1, num_max 50])),
      (''duration'', z_default (JNum 8) (z_number [num_min 1, num_max 30])),
      (''cfg_strength'', z_default (JNum (9 / 2)) (z_number [num_min 1, num_max 10]))]"

definition TextToAudioInputSchema :: "schema" where
  "TextToAudioInputSchema = z_object
     [(''prompt'', z_string [str_min 1 ''Prompt is required'']),
      (''duration'', z_default (JNum 8) (z_number [num_min 1, num_max 30])),
      (''num_steps'', z_default (JNum 25) (z_number [num_int, num_min 1, num_max 50])),
      (''cfg_strength'', z_default (JNum (9 / 2)) (z_number [num_min 1, num_max 10])),
      (''negative_prompt'', z_default (JStr []) (z_optional (z_string []))),
      (''seed'', z_default (JNum 0) (z_optional (z_number [num_int])))]"

definition AudioResponseSchema :: "platform \<Rightarrow> schema" where
  "AudioResponseSchema P = z_object
     [(''url'', z_string [str_url (isUrl P) ''Invalid url'']),
      (''content_type'', z_string []),
      (''file_name'', z_string []),
      (''file_size'', z_number [])]"

definition VideoToAudioResponseSchema :: "platform \<Rightarrow> schema" where
  "VideoToAudioResponseSchema P = z_object [(''video'', AudioResponseSchema P)]"

definition TextToAudioResponseSchema :: "platform \<Rightarrow> schema" where
  "TextToAudioResponseSchema P = z_object [(''audio'', AudioResponseSchema P)]"

definition ConfigSchema :: "platform \<Rightarrow> schema" where
  "ConfigSchema P = z_object
     [(''apiKey'', z_string [str_min 1 ''API key is required'']),
      (''baseUrl'', z_default (JStr ''https://mmaudio.net'') (z_string [str_url (isUrl P) ''Invalid url''])),
      (''timeout'', z_default (JNum 60000) (z_number [num_min 5000, num_max 300000]))]"

section \<open>Configuration\<close>

text \<open>
  The environment maps a variable's name to its value. \<^verbatim>\<open>a || b\<close> on two lookups takes the
  first that is set and not empty.
\<close>

type_synonym env = "string \<Rightarrow> string option"

definition env_or :: "string option \<Rightarrow> string option \<Rightarrow> string option" where
  "env_or a b = (case a of None \<Rightarrow> b | Some s \<Rightarrow> (if s = [] then b else Some s))"

definition env_val :: "string option \<Rightarrow> jsval" where
  "env_val a = (case a of None \<Rightarrow> JUndefined | Some s \<Rightarrow> JStr s)"

text \<open>\<^verbatim>\<open>a || 'literal'\<close> with a literal that is not empty.\<close>

definition or_default :: "string option \<Rightarrow> string \<Rightarrow> string" where
  "or_default a d = (case a of None \<Rightarrow> d | Some s \<Rightarrow> (if s = [] then d else s))"

text \<open>
  \<^verbatim>\<open>parseInt(s)\<close> with no radix: white space is skipped, then a sign, then the prefix
  \<^verbatim>\<open>0x\<close> selects base sixteen, and the digits up to the first character that is not one
  are read; with no digit the result is \<^verbatim>\<open>NaN\<close>. The value is exact here; a double
  rounds it only beyond \<open>2^53\<close>, far above the bounds it is compared with.
\<close>

definition isWhiteSpace :: "char \<Rightarrow> bool" where
  "isWhiteSpace c = (of_char c \<in> {9, 10, 11, 12, 13, 32, 160 :: nat})"

definition digit_of :: "nat \<Rightarrow> char \<Rightarrow> nat option" where
  "digit_of radix c =
     (let n = (of_char c :: nat);
          d = (if 48 \<le> n \<and> n \<le> 57 then Some (n - 48)
               else if 97 \<le> n \<and> n \<le> 122 then Some (n - 87)
               else if 65 \<le> n \<and> n \<le> 90 then Some (n - 55)
               else None)
      in case d of None \<Rightarrow> None | Some k \<Rightarrow> (if k < radix then Some k else None))"

fun digits :: "nat \<Rightarrow> string \<Rightarrow> nat list" where
  "digits radix [] = []"
| "digits radix (c # cs) =
     (case digit_of radix c of None \<Rightarrow> [] | Some d \<Rightarrow> d # digits radix cs)"

definition parseInt :: "string \<Rightarrow> jsval" where
  "parseInt s =
     (let s1 = dropWhile isWhiteSpace s;
          neg = (take 1 s1 = ''-'');
          s2 = (if take 1 s1 = ''-'' \<or> take 1 s1 = ''+'' then drop 1 s1 else s1);
          hex = (take 2 s2 = ''0x'' \<or> take 2 s2 = ''0X'');
          radix = (if hex then 16 else 10);
          ds = digits radix (if hex then drop 2 s2 else s2);
          n = int (foldl (\<lambda>a d. a * radix + d) 0 ds)
      in if ds = [] then JNaN else JNum (of_int (if neg then - n else n)))"

record config =
  apiKey :: string
  baseUrl :: string
  timeout :: rat

record server =
  config :: "config option"

definition str_of :: "jsval \<Rightarrow> string" where
  "str_of v = (case v of JStr s \<Rightarrow> s | _ \<Rightarrow> [])"

definition num_of :: "jsval \<Rightarrow> rat" where
  "num_of v = (case v of JNum x \<Rightarrow> x | _ \<Rightarrow> 0)"

text \<open>The object \<^verbatim>\<open>ConfigSchema.parse\<close> returns, with its three fields typed.\<close>

definition config_of :: "jsval \<Rightarrow> config" where
  "config_of v =
     \<lparr>apiKey = str_of (jget v ''apiKey''), baseUrl = str_of (jget v ''baseUrl''),
      timeout = num_of (jget v ''timeout'')\<rparr>"

definition env_config :: "env \<Rightarrow> jsval" where
  "env_config e = JObj
     [(''apiKey'', env_val (env_or (e ''MMAUDIO_API_KEY'') (e ''apiKey''))),
      (''baseUrl'', JStr (or_default (env_or (e ''MMAUDIO_BASE_URL'') (e ''baseUrl''))
                                     ''https://mmaudio.net'')),
      (''timeout'', parseInt (or_default (env_or (e ''MMAUDIO_TIMEOUT'') (e ''timeout''))
                                         ''60000''))]"

text \<open>
  \<^verbatim>\<open>loadConfig\<close>: the result and the server after it. The configuration is stored as soon
  as the schema accepts it, before the key is tested once more; every error of the body is
  rethrown as a configuration error.
\<close>

definition loadConfig :: "platform \<Rightarrow> env \<Rightarrow> server \<Rightarrow> (js_error + unit) \<times> server" where
  "loadConfig P e st =
     (case ConfigSchema P (env_config e) of
        Inl issues \<Rightarrow>
          (Inl (McpError InvalidRequest (''Configuration error: '' @ zodErrorMessage P issues)), st)
      | Inr v \<Rightarrow>
          (let st' = st\<lparr>config := Some (config_of v)\<rparr> in
           if apiKey (config_of v) = []
           then (Inl (McpError InvalidRequest
                   (''Configuration error: '' @
                    ''MMAudio API key is required. Please set MMAUDIO_API_KEY environment variable.'')), st')
           else (Inr (), st')))"

definition ensureConfigured :: "platform \<Rightarrow> env \<Rightarrow> server \<Rightarrow> (js_error + unit) \<times> server" where
  "ensureConfigured P e st =
     (case config st of None \<Rightarrow> loadConfig P e st | Some _ \<Rightarrow> (Inr (), st))"

section \<open>The upstream API\<close>

text \<open>
  An outbound call is the request \<^verbatim>\<open>fetch\<close> is given. The header
  \<^verbatim>\<open>`Bearer ${key}`\<close> is kept as the value interpolated. The body is the value
  \<^verbatim>\<open>JSON.stringify\<close> writes, which leaves out the properties that are \<^verbatim>\<open>undefined\<close>.
\<close>

datatype http_method = GET | POST

datatype header_value = Plain string | Bearer jsval

record request =
  req_url :: string
  req_method :: http_method
  req_headers :: "(string \<times> header_value) list"
  req_body :: "jsval option"
  req_timeout :: rat

definition JSON_stringify :: "jsval \<Rightarrow> jsval" where
  "JSON_stringify v =
     (case v of JObj kvs \<Rightarrow> JObj (filter (\<lambda>(k, x). x \<noteq> JUndefined) kvs) | _ \<Rightarrow> v)"

text \<open>
  A response is its status, the text of its body, and what reading the body as JSON gives:
  the value, or the message of the error thrown when the text is not JSON. \<^verbatim>\<open>fetch\<close> either
  resolves to a response or rejects with an error (DNS, connection refused, time-out), given
  by its message. The upstream API is a function from the request to what \<^verbatim>\<open>fetch\<close> does.
\<close>

record response =
  resp_status :: nat
  resp_text :: string
  resp_json :: "string + jsval"

datatype fetch_result = Responded response | Rejected jsval

type_synonym upstream = "request \<Rightarrow> fetch_result"

definition ok :: "response \<Rightarrow> bool" where
  "ok r = (200 \<le> resp_status r \<and> resp_status r \<le> 299)"

text \<open>
  The result of a tool is one text content, the rendering of an envelope by
  \<^verbatim>\<open>JSON.stringify(envelope, null, 2)\<close>; it is kept as the envelope.
\<close>

datatype tool_result = TextContent jsval

text \<open>What a handler does: the result or the error thrown, the server after it, and the
  outbound calls issued, in order.\<close>

type_synonym outcome = "(js_error + tool_result) \<times> server \<times> request list"

section \<open>The generation handlers\<close>

text \<open>The message built from a response that is not 2xx (the same lines in both handlers).\<close>

definition errorMessage :: "response \<Rightarrow> jsval" where
  "errorMessage r =
     (let fallback = JStr (''HTTP '' @ show_nat (resp_status r)) in
      case resp_json r of
        Inl _ \<Rightarrow> js_or (JStr (resp_text r)) fallback
      | Inr errorData \<Rightarrow>
          (case get_prop errorData ''error'' of
             Inl _ \<Rightarrow> js_or (JStr (resp_text r)) fallback
           | Inr e \<Rightarrow> js_or e fallback))"

definition not_ok_error :: "platform \<Rightarrow> string \<Rightarrow> response \<Rightarrow> js_error" where
  "not_ok_error P operation r =
     (if resp_status r = 401
      then McpError InvalidRequest ''Invalid API key. Please check your MMAudio API key.''
      else if resp_status r = 403
      then McpError InvalidRequest (''Insufficient credits for '' @ operation @ '' generation.'')
      else if resp_status r = 429
      then McpError InvalidRequest ''Rate limit exceeded. Please try again later.''
      else new_Error P (errorMessage r))"

definition generation_request :: "config \<Rightarrow> string \<Rightarrow> jsval \<Rightarrow> request" where
  "generation_request c path input =
     \<lparr>req_url = baseUrl c @ path,
      req_method = POST,
      req_headers = [(''Content-Type'', Plain ''application/json''),
                     (''Authorization'', Bearer (JStr (apiKey c))),
                     (''User-Agent'', Plain ''MMAudio-DXT/1.0.0'')],
      req_body = Some (JSON_stringify input),
      req_timeout = timeout c\<rparr>"

definition generation_envelope :: "string \<Rightarrow> jsval \<Rightarrow> jsval \<Rightarrow> jsval" where
  "generation_envelope message descriptor input = JObj
     [(''success'', JBool True),
      (''message'', JStr message),
      (''result'', JObj
         [(''audio_url'', jget descriptor ''url''),
          (''content_type'', jget descriptor ''content_type''),
          (''file_name'', jget descriptor ''file_name''),
          (''file_size'', jget descriptor ''file_size''),
          (''duration'', jget input ''duration''),
          (''prompt'', jget input ''prompt'')])]"

text \<open>\<^verbatim>\<open>error.errors.map(e => `${e.path.join('.')}: ${e.message}`).join(', ')\<close>\<close>

definition format_issues :: "issue list \<Rightarrow> string" where
  "format_issues issues = join '', '' (map (\<lambda>(p, m). join ''.'' p @ '': '' @ m) issues)"

text \<open>The \<^verbatim>\<open>catch\<close> of both handlers: a \<^verbatim>\<open>ZodError\<close> becomes an \<^verbatim>\<open>McpError\<close>, any
  other error is thrown on.\<close>

definition catch_zod :: "js_error \<Rightarrow> js_error" where
  "catch_zod e =
     (case e of
        ZodError issues \<Rightarrow> McpError InvalidParams (''Invalid input parameters: '' @ format_issues issues)
      | _ \<Rightarrow> e)"

text \<open>The \<^verbatim>\<open>try\<close> block of \<^verbatim>\<open>handleVideoToAudio\<close>.\<close>

definition videoToAudio_try ::
  "platform \<Rightarrow> upstream \<Rightarrow> server \<Rightarrow> jsval \<Rightarrow> (js_error + tool_result) \<times> request list" where
  "videoToAudio_try P net st args =
     (case VideoToAudioInputSchema P args of
        Inl issues \<Rightarrow> (Inl (ZodError issues), [])
      | Inr input \<Rightarrow>
          (case config st of
             None \<Rightarrow> (Inl (Error (JStr (typeError_message ''null'' ''baseUrl''))), [])
           | Some c \<Rightarrow>
               (let req = generation_request c ''/api/video-to-audio'' input in
                case net req of
                  Rejected m \<Rightarrow> (Inl (Error m), [req])
                | Responded r \<Rightarrow>
                    (if \<not> ok r then (Inl (not_ok_error P ''video-to-audio'' r), [req])
                     else case resp_json r of
                            Inl m \<Rightarrow> (Inl (Error (JStr m)), [req])
                          | Inr result \<Rightarrow>
                              (case VideoToAudioResponseSchema P result of
                                 Inl issues \<Rightarrow> (Inl (ZodError issues), [req])
                               | Inr validatedResult \<Rightarrow>
                                   (Inr (TextContent (generation_envelope
                                           ''Audio generated successfully from video''
                                           (jget validatedResult ''video'') input)), [req]))))))"

definition handleVideoToAudio :: "platform \<Rightarrow> env \<Rightarrow> upstream \<Rightarrow> server \<Rightarrow> jsval \<Rightarrow> outcome" where
  "handleVideoToAudio P e net st args =
     (case ensureConfigured P e st of
        (Inl err, st') \<Rightarrow> (Inl err, st', [])
      | (Inr _, st') \<Rightarrow>
          (case videoToAudio_try P net st' args of
             (Inl err, calls) \<Rightarrow> (Inl (catch_zod err), st', calls)
           | (Inr res, calls) \<Rightarrow> (Inr res, st', calls)))"

text \<open>The \<^verbatim>\<open>try\<close> block of \<^verbatim>\<open>handleTextToAudio\<close>.\<close>

definition textToAudio_try ::
  "platform \<Rightarrow> upstream \<Rightarrow> server \<Rightarrow> jsval \<Rightarrow> (js_error + tool_result) \<times> request list" where
  "textToAudio_try P net st args =
     (case TextToAudioInputSchema args of
        Inl issues \<Rightarrow> (Inl (ZodError issues), [])
      | Inr input \<Rightarrow>
          (case config st of
             None \<Rightarrow> (Inl (Error (JStr (typeError_message ''null'' ''baseUrl''))), [])
           | Some c \<Rightarrow>
               (let req = generation_request c ''/api/text-to-audio'' input in
                case net req of
                  Rejected m \<Rightarrow> (Inl (Error m), [req])
                | Responded r \<Rightarrow>
                    (if \<not> ok r then (Inl (not_ok_error P ''text-to-audio'' r), [req])
                     else case resp_json r of
                            Inl m \<Rightarrow> (Inl (Error (JStr m)), [req])
                          | Inr result \<Rightarrow>
                              (case TextToAudioResponseSchema P result of
                                 Inl issues \<Rightarrow> (Inl (ZodError issues), [req])
                               | Inr validatedResult \<Rightarrow>
                                   (Inr (TextContent (generation_envelope
                                           ''Audio generated successfully from text''
                                           (jget validatedResult ''audio'') input)), [req]))))))"

definition handleTextToAudio :: "platform \<Rightarrow> env \<Rightarrow> upstream \<Rightarrow> server \<Rightarrow> jsval \<Rightarrow> outcome" where
  "handleTextToAudio P e net st args =
     (case ensureConfigured P e st of
        (Inl err, st') \<Rightarrow> (Inl err, st', [])
      | (Inr _, st') \<Rightarrow>
          (case textToAudio_try P net st' args of
             (Inl err, calls) \<Rightarrow> (Inl (catch_zod err), st', calls)
           | (Inr res, calls) \<Rightarrow> (Inr res, st', calls)))"

section \<open>The key validation handler\<close>

definition invalid_key_envelope :: "jsval" where
  "invalid_key_envelope = JObj
     [(''success'', JBool False), (''valid'', JBool False),
      (''message'', JStr ''Invalid API key''), (''error'', JStr ''Authentication failed'')]"

definition valid_key_envelope :: "jsval \<Rightarrow> jsval" where
  "valid_key_envelope credits = JObj
     [(''success'', JBool True), (''valid'', JBool True),
      (''message'', JStr ''API key is valid''), (''credits'', credits),
      (''account_status'', JStr ''Active'')]"

definition failed_validation_envelope :: "jsval \<Rightarrow> jsval" where
  "failed_validation_envelope message = JObj
     [(''success'', JBool False), (''valid'', JBool False),
      (''message'', JStr ''Failed to validate API key''), (''error'', message)]"

definition credits_request :: "string \<Rightarrow> jsval \<Rightarrow> request" where
  "credits_request base key =
     \<lparr>req_url = base @ ''/api/credits'',
      req_method = GET,
      req_headers = [(''Authorization'', Bearer key), (''User-Agent'', Plain ''MMAudio-DXT/1.0.0'')],
      req_body = None,
      req_timeout = 10000\<rparr>"

text \<open>
  The \<^verbatim>\<open>try\<close> block of \<^verbatim>\<open>handleValidateApiKey\<close> after \<^verbatim>\<open>fetch\<close>: the envelope returned,
  or the \<^verbatim>\<open>message\<close> of the error thrown (the only use its \<^verbatim>\<open>catch\<close> makes of the error).
\<close>

definition validate_try :: "fetch_result \<Rightarrow> jsval + jsval" where
  "validate_try res =
     (case res of
        Rejected m \<Rightarrow> Inl m
      | Responded r \<Rightarrow>
          (if resp_status r = 401 then Inr invalid_key_envelope
           else if \<not> ok r
           then Inl (JStr (''HTTP '' @ show_nat (resp_status r) @ '': '' @ resp_text r))
           else case resp_json r of
                  Inl m \<Rightarrow> Inl (JStr m)
                | Inr data \<Rightarrow>
                    (case get_prop data ''credits'' of
                       Inl m \<Rightarrow> Inl (JStr m)
                     | Inr credits \<Rightarrow> Inr (valid_key_envelope (js_or credits (JStr ''Unknown''))))))"

definition handleValidateApiKey :: "upstream \<Rightarrow> server \<Rightarrow> jsval \<Rightarrow> outcome" where
  "handleValidateApiKey net st args =
     (case get_prop args ''api_key'' of
        Inl m \<Rightarrow> (Inl (Error (JStr m)), st, [])
      | Inr override \<Rightarrow>
          (let apiKey = js_or override
                          (case config st of None \<Rightarrow> JUndefined | Some c \<Rightarrow> JStr (apiKey c));
               base = (case config st of
                         None \<Rightarrow> ''https://mmaudio.net''
                       | Some c \<Rightarrow> (if baseUrl c = [] then ''https://mmaudio.net'' else baseUrl c));
               req = credits_request base apiKey
           in if \<not> truthy apiKey then (Inl (McpError InvalidRequest ''No API key provided''), st, [])
              else (case validate_try (net req) of
                      Inl m \<Rightarrow> (Inr (TextContent (failed_validation_envelope m)), st, [req])
                    | Inr envelope \<Rightarrow> (Inr (TextContent envelope), st, [req]))))"

section \<open>Concrete platforms, servers, inputs and responses\<close>

text \<open>
  The data of the evaluations below. The platform records the URL constructor's verdict on
  the strings that occur in them: the three listed parse as absolute URLs. The text it gives a
  \<^verbatim>\<open>ZodError\<close> stands for the library's rendering; no statement below depends on it, nor on
  the rendering of a number other than \<open>4.5\<close>.
\<close>

definition example_platform :: platform where
  "example_platform =
     \<lparr>isUrl = (\<lambda>s. s \<in> set [''https://mmaudio.net'', ''https://example.com/clip.mp4'',
                                ''https://cdn.example.com/out.wav'']),
      zodErrorMessage = format_issues,
      numberToString = (\<lambda>x. if x = 9 / 2 then ''4.5'' else [])\<rparr>"

definition unconfigured :: server where
  "unconfigured = \<lparr>config = None\<rparr>"

definition configured :: server where
  "configured =
     \<lparr>config = Some \<lparr>apiKey = ''test-key'', baseUrl = ''https://mmaudio.net'', timeout = 60000\<rparr>\<rparr>"

definition no_env :: env where
  "no_env = (\<lambda>k. None)"

definition test_env :: env where
  "test_env = (\<lambda>k. if k = ''MMAUDIO_API_KEY'' then Some ''test-key'' else None)"

definition short_timeout_env :: env where
  "short_timeout_env =
     (\<lambda>k. if k = ''MMAUDIO_API_KEY'' then Some ''test-key''
          else if k = ''MMAUDIO_TIMEOUT'' then Some ''1000'' else None)"

definition fractional_timeout_env :: env where
  "fractional_timeout_env =
     (\<lambda>k. if k = ''MMAUDIO_API_KEY'' then Some ''test-key''
          else if k = ''MMAUDIO_TIMEOUT'' then Some ''300000.9'' else None)"

definition rain_args :: jsval where
  "rain_args = JObj [(''prompt'', JStr ''rain on leaves'')]"

definition clip_args :: jsval where
  "clip_args = JObj [(''video_url'', JStr ''https://example.com/clip.mp4''),
                     (''prompt'', JStr ''forest sounds'')]"

text \<open>An upstream API that does the same whatever it is asked.\<close>

definition always :: "fetch_result \<Rightarrow> upstream" where
  "always res = (\<lambda>req. res)"

definition quoted :: "string \<Rightarrow> string" where
  "quoted s = [CHR 0x22] @ s @ [CHR 0x22]"



text \<open>A 200 response whose descriptor lacks \<^verbatim>\<open>file_size\<close>:
  \<^verbatim>\<open>{"video":{"url":"https://cdn.example.com/out.wav","content_type":"audio/wav","file_name":"out.wav"}}\<close>.\<close>

definition sizeless_response :: response where
  "sizeless_response =
     \<lparr>resp_status = 200,
      resp_text = ''{'' @ quoted ''video'' @ '':{'' @
                  quoted ''url'' @ '':'' @ quoted ''https://cdn.example.com/out.wav'' @ '','' @
                  quoted ''content_type'' @ '':'' @ quoted ''audio/wav'' @ '','' @
                  quoted ''file_name'' @ '':'' @ quoted ''out.wav'' @ ''}}'',
      resp_json = Inr (JObj [(''video'', JObj
                     [(''url'', JStr ''https://cdn.example.com/out.wav''),
                      (''content_type'', JStr ''audio/wav''),
                      (''file_name'', JStr ''out.wav'')])])\<rparr>"

text \<open>A 401 response with an empty body.\<close>

definition unauthorized_response :: response where
  "unauthorized_response =
     \<lparr>resp_status = 401, resp_text = [], resp_json = Inl ''Unexpected end of JSON input''\<rparr>"

section \<open>Properties of the schema library\<close>

lemma show_nat_bounds:
  "show_nat 1 = ''1''" "show_nat 10 = ''10''" "show_nat 30 = ''30''" "show_nat 50 = ''50''"
  "show_nat 5000 = ''5000''" "show_nat 300000 = ''300000''"
  by (simp_all add: show_nat.simps)

lemmas zod_defs =
  z_object_def lookup_def has_key_def field_issues_def field_output_def z_string_def
  z_number_def z_optional_def z_nullable_def z_default_def run_checks_def
  str_min_def str_url_def num_int_def num_min_def num_max_def invalid_type_def

lemma map_of_filter_keys:
  "map_of (filter (\<lambda>(k, v). k \<in> S) kvs) k = (if k \<in> S then map_of kvs k else None)"
  by (induction kvs) auto

lemma lookup_filter_keys:
  "k \<in> S \<Longrightarrow> lookup (filter (\<lambda>(k, v). k \<in> S) kvs) k = lookup kvs k"
  by (simp add: lookup_def map_of_filter_keys)

lemma has_key_filter_keys:
  "k \<in> S \<Longrightarrow> has_key (filter (\<lambda>(k, v). k \<in> S) kvs) k = has_key kvs k"
  by (simp add: has_key_def map_of_filter_keys)

lemma field_output_filter_keys:
  "k \<in> S \<Longrightarrow> field_output (filter (\<lambda>(k, v). k \<in> S) kvs) k r = field_output kvs k r"
  by (cases r) (simp_all add: field_output_def has_key_filter_keys)

text \<open>An object schema reads the properties its shape names and no other.\<close>

lemma z_object_strips:
  assumes "fst ` set shape \<subseteq> S"
  shows "z_object shape (JObj (filter (\<lambda>(k, v). k \<in> S) kvs)) = z_object shape (JObj kvs)"
proof -
  let ?kvs' = "filter (\<lambda>(k, v). k \<in> S) kvs"
  have i: "map (\<lambda>(k, s). field_issues k (s (lookup ?kvs' k))) shape
         = map (\<lambda>(k, s). field_issues k (s (lookup kvs k))) shape"
    using assms by (intro map_cong refl) (auto simp: lookup_filter_keys)
  have o: "map (\<lambda>(k, s). field_output ?kvs' k (s (lookup ?kvs' k))) shape
         = map (\<lambda>(k, s). field_output kvs k (s (lookup kvs k))) shape"
    using assms by (intro map_cong refl) (auto simp: lookup_filter_keys field_output_filter_keys)
  show ?thesis unfolding z_object_def jsval.case by (simp only: i o)
qed

lemma field_output_keys: "fst ` set (field_output kvs k r) \<subseteq> {k}"
  by (auto simp: field_output_def split: sum.splits if_splits)

text \<open>What an object schema returns is an object with properties of its shape only.\<close>

lemma z_object_keys:
  assumes "z_object shape v = Inr out"
  shows "\<exists>xs. out = JObj xs \<and> fst ` set xs \<subseteq> fst ` set shape"
proof -
  from assms obtain kvs where v: "v = JObj kvs"
    by (cases v) (auto simp: z_object_def)
  let ?xs = "concat (map (\<lambda>(k, s). field_output kvs k (s (lookup kvs k))) shape)"
  from assms v have "out = JObj ?xs"
    by (auto simp: z_object_def split: list.splits)
  moreover have "fst ` set ?xs \<subseteq> fst ` set shape"
  proof
    fix k assume "k \<in> fst ` set ?xs"
    then obtain k' s where ks: "(k', s) \<in> set shape"
      and "k \<in> fst ` set (field_output kvs k' (s (lookup kvs k')))"
      by auto
    with field_output_keys [of kvs k' "s (lookup kvs k')"] have "k = k'" by auto
    with ks show "k \<in> fst ` set shape" by force
  qed
  ultimately show ?thesis by blast
qed

lemma list_case_nonempty:
  "(case xs of [] \<Rightarrow> a | i # is \<Rightarrow> f (i # is)) = (if xs = [] then a else f xs)"
  by (cases xs) simp_all

lemma z_object_JObj:
  "z_object shape (JObj kvs) =
     (if concat (map (\<lambda>(k, s). field_issues k (s (lookup kvs k))) shape) = []
      then Inr (JObj (concat (map (\<lambda>(k, s). field_output kvs k (s (lookup kvs k))) shape)))
      else Inl (concat (map (\<lambda>(k, s). field_issues k (s (lookup kvs k))) shape)))"
  unfolding z_object_def jsval.case by (rule list_case_nonempty)

lemma lookup_Cons: "lookup ((k, v) # kvs) k' = (if k = k' then v else lookup kvs k')"
  by (simp add: lookup_def)

section \<open>Properties of the input schemas\<close>

lemma duration_field:
  "z_default (JNum 8) (z_number [num_min 1, num_max 30]) (JNum d) =
     (if d < 1 then Inl [([], ''Number must be greater than or equal to 1'')]
      else if 30 < d then Inl [([], ''Number must be less than or equal to 30'')]
      else Inr (JNum d))"
  by (simp add: z_default_def z_number_def run_checks_def num_min_def num_max_def show_nat_bounds
        del: One_nat_def)

lemma video_duration_rejected:
  assumes "lookup kvs ''duration'' = JNum d" and "d < 1 \<or> 30 < d"
  shows "isl (VideoToAudioInputSchema P (JObj kvs))"
  using assms
  by (auto simp add: VideoToAudioInputSchema_def z_object_JObj duration_field field_issues_def
        simp del: One_nat_def)

lemma text_duration_rejected:
  assumes "lookup kvs ''duration'' = JNum d" and "d < 1 \<or> 30 < d"
  shows "isl (TextToAudioInputSchema (JObj kvs))"
  using assms
  by (auto simp add: TextToAudioInputSchema_def z_object_JObj duration_field field_issues_def
        simp del: One_nat_def)

lemma video_duration_accepted:
  assumes "\<not> isl (VideoToAudioInputSchema P (JObj ((''duration'', d0) # kvs)))"
    and "1 \<le> d" and "d \<le> 30"
  shows "\<not> isl (VideoToAudioInputSchema P (JObj ((''duration'', JNum d) # kvs)))"
  using assms
  by (simp add: VideoToAudioInputSchema_def z_object_JObj duration_field field_issues_def lookup_Cons
        del: One_nat_def split: if_splits)

lemma text_duration_accepted:
  assumes "\<not> isl (TextToAudioInputSchema (JObj ((''duration'', d0) # kvs)))"
    and "1 \<le> d" and "d \<le> 30"
  shows "\<not> isl (TextToAudioInputSchema (JObj ((''duration'', JNum d) # kvs)))"
  using assms
  by (simp add: TextToAudioInputSchema_def z_object_JObj duration_field field_issues_def lookup_Cons
        del: One_nat_def split: if_splits)

text \<open>
  C6. For both operations, an input whose \<^verbatim>\<open>duration\<close> is 0 or 31 is rejected by
  validation, whatever its other fields are; and an input that validation accepts for some
  duration \<open>d0\<close> is accepted as well with the duration 1 and with the duration 30: the bounds
  of \<open>[1, 30]\<close> are inclusive.
\<close>

theorem C6_duration_bounds:
  "(lookup kvs ''duration'' = JNum 0 \<or> lookup kvs ''duration'' = JNum 31 \<longrightarrow>
      isl (VideoToAudioInputSchema P (JObj kvs)) \<and> isl (TextToAudioInputSchema (JObj kvs)))
   \<and> (\<not> isl (VideoToAudioInputSchema P (JObj ((''duration'', d0) # kvs))) \<longrightarrow>
        \<not> isl (VideoToAudioInputSchema P (JObj ((''duration'', JNum 1) # kvs))) \<and>
        \<not> isl (VideoToAudioInputSchema P (JObj ((''duration'', JNum 30) # kvs))))
   \<and> (\<not> isl (TextToAudioInputSchema (JObj ((''duration'', d0) # kvs))) \<longrightarrow>
        \<not> isl (TextToAudioInputSchema (JObj ((''duration'', JNum 1) # kvs))) \<and>
        \<not> isl (TextToAudioInputSchema (JObj ((''duration'', JNum 30) # kvs))))"
proof (intro conjI impI)
  assume "lookup kvs ''duration'' = JNum 0 \<or> lookup kvs ''duration'' = JNum 31"
  then obtain d :: rat where d: "lookup kvs ''duration'' = JNum d" "d < 1 \<or> 30 < d"
    by auto
  from video_duration_rejected [OF d] show "isl (VideoToAudioInputSchema P (JObj kvs))" .
  from text_duration_rejected [OF d] show "isl (TextToAudioInputSchema (JObj kvs))" .
next
  assume a: "\<not> isl (VideoToAudioInputSchema P (JObj ((''duration'', d0) # kvs)))"
  from video_duration_accepted [OF a, of 1]
  show "\<not> isl (VideoToAudioInputSchema P (JObj ((''duration'', JNum 1) # kvs)))" by simp
  from video_duration_accepted [OF a, of 30]
  show "\<not> isl (VideoToAudioInputSchema P (JObj ((''duration'', JNum 30) # kvs)))" by simp
next
  assume a: "\<not> isl (TextToAudioInputSchema (JObj ((''duration'', d0) # kvs)))"
  from text_duration_accepted [OF a, of 1]
  show "\<not> isl (TextToAudioInputSchema (JObj ((''duration'', JNum 1) # kvs)))" by simp
  from text_duration_accepted [OF a, of 30]
  show "\<not> isl (TextToAudioInputSchema (JObj ((''duration'', JNum 30) # kvs)))" by simp
qed

text \<open>
  The theorem at the input \<^verbatim>\<open>{duration: 0, video_url: "https://example.com/clip.mp4",
  prompt: "forest sounds"}\<close>, which both schemas reject and, with the duration set to 8, both
  accept.
\<close>

theorem C6_duration_bounds_witness:
  "isl (VideoToAudioInputSchema example_platform
          (JObj [(''duration'', JNum 0), (''video_url'', JStr ''https://example.com/clip.mp4''),
                 (''prompt'', JStr ''forest sounds'')]))
   \<and> isl (TextToAudioInputSchema
          (JObj [(''duration'', JNum 0), (''video_url'', JStr ''https://example.com/clip.mp4''),
                 (''prompt'', JStr ''forest sounds'')]))
   \<and> \<not> isl (VideoToAudioInputSchema example_platform
          (JObj [(''duration'', JNum 1), (''duration'', JNum 0),
                 (''video_url'', JStr ''https://example.com/clip.mp4''),
                 (''prompt'', JStr ''forest sounds'')]))
   \<and> \<not> isl (TextToAudioInputSchema
          (JObj [(''duration'', JNum 30), (''duration'', JNum 0),
                 (''video_url'', JStr ''https://example.com/clip.mp4''),
                 (''prompt'', JStr ''forest sounds'')]))"
proof -
  let ?kvs = "[(''duration'', JNum 0), (''video_url'', JStr ''https://example.com/clip.mp4''),
               (''prompt'', JStr ''forest sounds'')]"
  have zero: "lookup ?kvs ''duration'' = JNum 0"
    by (simp add: lookup_def)
  have v8: "\<not> isl (VideoToAudioInputSchema example_platform (JObj ((''duration'', JNum 8) # ?kvs)))"
    by (simp add: VideoToAudioInputSchema_def example_platform_def zod_defs)
  have t8: "\<not> isl (TextToAudioInputSchema (JObj ((''duration'', JNum 8) # ?kvs)))"
    by (simp add: TextToAudioInputSchema_def zod_defs)
  from C6_duration_bounds [of ?kvs example_platform "JNum 8"] zero v8 t8
  show ?thesis by blast
qed

section \<open>Unrecognized fields\<close>

lemma video_schema_strips:
  "VideoToAudioInputSchema P
     (JObj (filter (\<lambda>(k, v). k \<in> {''video_url'', ''prompt'', ''negative_prompt'', ''seed'',
                                      ''num_steps'', ''duration'', ''cfg_strength''}) kvs))
   = VideoToAudioInputSchema P (JObj kvs)"
  unfolding VideoToAudioInputSchema_def by (rule z_object_strips) simp

lemma text_schema_strips:
  "TextToAudioInputSchema
     (JObj (filter (\<lambda>(k, v). k \<in> {''prompt'', ''duration'', ''num_steps'', ''cfg_strength'',
                                      ''negative_prompt'', ''seed''}) kvs))
   = TextToAudioInputSchema (JObj kvs)"
  unfolding TextToAudioInputSchema_def by (rule z_object_strips) simp

lemma video_schema_keys:
  assumes "VideoToAudioInputSchema P args = Inr input"
  shows "\<exists>xs. input = JObj xs \<and>
           fst ` set xs \<subseteq> {''video_url'', ''prompt'', ''negative_prompt'', ''seed'',
                             ''num_steps'', ''duration'', ''cfg_strength''}"
  using z_object_keys [OF assms [unfolded VideoToAudioInputSchema_def]] by simp

lemma text_schema_keys:
  assumes "TextToAudioInputSchema args = Inr input"
  shows "\<exists>xs. input = JObj xs \<and>
           fst ` set xs \<subseteq> {''prompt'', ''duration'', ''num_steps'', ''cfg_strength'',
                             ''negative_prompt'', ''seed''}"
  using z_object_keys [OF assms [unfolded TextToAudioInputSchema_def]] by simp

lemma JSON_stringify_keys:
  "fst ` set xs \<subseteq> S \<Longrightarrow> \<exists>ys. JSON_stringify (JObj xs) = JObj ys \<and> fst ` set ys \<subseteq> S"
  by (auto simp: JSON_stringify_def)

text \<open>The outbound calls of the two generation handlers.\<close>

lemma video_calls:
  "snd (snd (handleVideoToAudio P e net st args)) =
     (case ensureConfigured P e st of
        (Inl err, st') \<Rightarrow> []
      | (Inr u, st') \<Rightarrow>
          (case VideoToAudioInputSchema P args of
             Inl issues \<Rightarrow> []
           | Inr input \<Rightarrow>
               (case config st' of None \<Rightarrow> []
                | Some c \<Rightarrow> [generation_request c ''/api/video-to-audio'' input])))"
  by (simp add: handleVideoToAudio_def videoToAudio_try_def Let_def
      split: prod.split sum.split option.split fetch_result.split)

lemma text_calls:
  "snd (snd (handleTextToAudio P e net st args)) =
     (case ensureConfigured P e st of
        (Inl err, st') \<Rightarrow> []
      | (Inr u, st') \<Rightarrow>
          (case TextToAudioInputSchema args of
             Inl issues \<Rightarrow> []
           | Inr input \<Rightarrow>
               (case config st' of None \<Rightarrow> []
                | Some c \<Rightarrow> [generation_request c ''/api/text-to-audio'' input])))"
  by (simp add: handleTextToAudio_def textToAudio_try_def Let_def
      split: prod.split sum.split option.split fetch_result.split)

lemma video_bodies:
  assumes "req \<in> set (snd (snd (handleVideoToAudio P e net st args)))"
  shows "\<exists>xs. req_body req = Some (JObj xs) \<and>
           fst ` set xs \<subseteq> {''video_url'', ''prompt'', ''negative_prompt'', ''seed'',
                             ''num_steps'', ''duration'', ''cfg_strength''}"
proof -
  from assms have "\<exists>input c. VideoToAudioInputSchema P args = Inr input
      \<and> req = generation_request c ''/api/video-to-audio'' input"
    unfolding video_calls
    by (cases "ensureConfigured P e st"; cases "VideoToAudioInputSchema P args")
       (auto split: sum.splits option.splits)
  then obtain input c where p: "VideoToAudioInputSchema P args = Inr input"
    and r: "req = generation_request c ''/api/video-to-audio'' input"
    by blast
  from video_schema_keys [OF p] obtain xs where "input = JObj xs"
    and "fst ` set xs \<subseteq> {''video_url'', ''prompt'', ''negative_prompt'', ''seed'',
                            ''num_steps'', ''duration'', ''cfg_strength''}"
    by blast
  with JSON_stringify_keys [of xs] r show ?thesis
    by (auto simp: generation_request_def)
qed

lemma text_bodies:
  assumes "req \<in> set (snd (snd (handleTextToAudio P e net st args)))"
  shows "\<exists>xs. req_body req = Some (JObj xs) \<and>
           fst ` set xs \<subseteq> {''prompt'', ''duration'', ''num_steps'', ''cfg_strength'',
                             ''negative_prompt'', ''seed''}"
proof -
  from assms have "\<exists>input c. TextToAudioInputSchema args = Inr input
      \<and> req = generation_request c ''/api/text-to-audio'' input"
    unfolding text_calls
    by (cases "ensureConfigured P e st"; cases "TextToAudioInputSchema args")
       (auto split: sum.splits option.splits)
  then obtain input c where p: "TextToAudioInputSchema args = Inr input"
    and r: "req = generation_request c ''/api/text-to-audio'' input"
    by blast
  from text_schema_keys [OF p] obtain xs where "input = JObj xs"
    and "fst ` set xs \<subseteq> {''prompt'', ''duration'', ''num_steps'', ''cfg_strength'',
                            ''negative_prompt'', ''seed''}"
    by blast
  with JSON_stringify_keys [of xs] r show ?thesis
    by (auto simp: generation_request_def)
qed

lemma ensureConfigured_config:
  assumes "ensureConfigured P e st = (Inr u, st')"
  shows "config st' \<noteq> None"
  using assms
  by (auto simp: ensureConfigured_def loadConfig_def Let_def
      split: option.splits sum.splits if_splits)

text \<open>On a server whose configuration resolves, a valid input gives one request, whose body
  is the input as the schema returns it.\<close>

lemma video_body:
  assumes "fst (ensureConfigured P e st) = Inr ()"
    and "VideoToAudioInputSchema P args = Inr input"
  shows "map req_body (snd (snd (handleVideoToAudio P e net st args))) =
           [Some (JSON_stringify input)]"
proof -
  obtain st' where ec: "ensureConfigured P e st = (Inr (), st')"
    using assms(1) by (cases "ensureConfigured P e st") auto
  from ensureConfigured_config [OF ec] obtain c where c: "config st' = Some c" by auto
  show ?thesis
    by (simp add: video_calls ec c assms(2) generation_request_def)
qed

lemma text_body:
  assumes "fst (ensureConfigured P e st) = Inr ()"
    and "TextToAudioInputSchema args = Inr input"
  shows "map req_body (snd (snd (handleTextToAudio P e net st args))) =
           [Some (JSON_stringify input)]"
proof -
  obtain st' where ec: "ensureConfigured P e st = (Inr (), st')"
    using assms(1) by (cases "ensureConfigured P e st") auto
  from ensureConfigured_config [OF ec] obtain c where c: "config st' = Some c" by auto
  show ?thesis
    by (simp add: text_calls ec c assms(2) generation_request_def)
qed

text \<open>
  C10. Validation strips the fields outside the contract, for both operations. Each
  generation handler does on an input object what it does on the object restricted to the
  fields of its schema; the JSON body of every request it issues is an object with fields of
  the schema only; and on a server whose configuration resolves, when the input restricted to
  the fields of the schema is valid, the handler given the whole input issues exactly one
  request, whose body is what the schema returns for the restricted input, whatever other
  keys the caller supplied.
\<close>

theorem C10_unrecognized_fields_stripped:
  "handleVideoToAudio P e net st (JObj kvs) =
     handleVideoToAudio P e net st
       (JObj (filter (\<lambda>(k, v). k \<in> {''video_url'', ''prompt'', ''negative_prompt'', ''seed'',
                                        ''num_steps'', ''duration'', ''cfg_strength''}) kvs))
   \<and> handleTextToAudio P e net st (JObj kvs) =
     handleTextToAudio P e net st
       (JObj (filter (\<lambda>(k, v). k \<in> {''prompt'', ''duration'', ''num_steps'', ''cfg_strength'',
                                        ''negative_prompt'', ''seed''}) kvs))
   \<and> (\<forall>req \<in> set (snd (snd (handleVideoToAudio P e net st args))).
         \<exists>xs. req_body req = Some (JObj xs) \<and>
           fst ` set xs \<subseteq> {''video_url'', ''prompt'', ''negative_prompt'', ''seed'',
                             ''num_steps'', ''duration'', ''cfg_strength''})
   \<and> (\<forall>req \<in> set (snd (snd (handleTextToAudio P e net st args))).
         \<exists>xs. req_body req = Some (JObj xs) \<and>
           fst ` set xs \<subseteq> {''prompt'', ''duration'', ''num_steps'', ''cfg_strength'',
                             ''negative_prompt'', ''seed''})
   \<and> (\<forall>input. fst (ensureConfigured P e st) = Inr () \<and>
         VideoToAudioInputSchema P
           (JObj (filter (\<lambda>(k, v). k \<in> {''video_url'', ''prompt'', ''negative_prompt'', ''seed'',
                                            ''num_steps'', ''duration'', ''cfg_strength''}) kvs))
           = Inr input \<longrightarrow>
         map req_body (snd (snd (handleVideoToAudio P e net st (JObj kvs)))) =
           [Some (JSON_stringify input)])
   \<and> (\<forall>input. fst (ensureConfigured P e st) = Inr () \<and>
         TextToAudioInputSchema
           (JObj (filter (\<lambda>(k, v). k \<in> {''prompt'', ''duration'', ''num_steps'', ''cfg_strength'',
                                            ''negative_prompt'', ''seed''}) kvs))
           = Inr input \<longrightarrow>
         map req_body (snd (snd (handleTextToAudio P e net st (JObj kvs)))) =
           [Some (JSON_stringify input)])"
proof (intro conjI ballI allI impI)
  show "handleVideoToAudio P e net st (JObj kvs) =
     handleVideoToAudio P e net st
       (JObj (filter (\<lambda>(k, v). k \<in> {''video_url'', ''prompt'', ''negative_prompt'', ''seed'',
                                        ''num_steps'', ''duration'', ''cfg_strength''}) kvs))"
    by (simp only: handleVideoToAudio_def videoToAudio_try_def video_schema_strips)
  show "handleTextToAudio P e net st (JObj kvs) =
     handleTextToAudio P e net st
       (JObj (filter (\<lambda>(k, v). k \<in> {''prompt'', ''duration'', ''num_steps'', ''cfg_strength'',
                                        ''negative_prompt'', ''seed''}) kvs))"
    by (simp only: handleTextToAudio_def textToAudio_try_def text_schema_strips)
next
  fix req assume "req \<in> set (snd (snd (handleVideoToAudio P e net st args)))"
  then show "\<exists>xs. req_body req = Some (JObj xs) \<and>
           fst ` set xs \<subseteq> {''video_url'', ''prompt'', ''negative_prompt'', ''seed'',
                             ''num_steps'', ''duration'', ''cfg_strength''}"
    by (rule video_bodies)
next
  fix req assume "req \<in> set (snd (snd (handleTextToAudio P e net st args)))"
  then show "\<exists>xs. req_body req = Some (JObj xs) \<and>
           fst ` set xs \<subseteq> {''prompt'', ''duration'', ''num_steps'', ''cfg_strength'',
                             ''negative_prompt'', ''seed''}"
    by (rule text_bodies)
next
  fix input
  assume a: "fst (ensureConfigured P e st) = Inr () \<and>
         VideoToAudioInputSchema P
           (JObj (filter (\<lambda>(k, v). k \<in> {''video_url'', ''prompt'', ''negative_prompt'', ''seed'',
                                            ''num_steps'', ''duration'', ''cfg_strength''}) kvs))
           = Inr input"
  then have "VideoToAudioInputSchema P (JObj kvs) = Inr input"
    by (simp only: video_schema_strips)
  with a show "map req_body (snd (snd (handleVideoToAudio P e net st (JObj kvs)))) =
                 [Some (JSON_stringify input)]"
    by (intro video_body) simp_all
next
  fix input
  assume a: "fst (ensureConfigured P e st) = Inr () \<and>
         TextToAudioInputSchema
           (JObj (filter (\<lambda>(k, v). k \<in> {''prompt'', ''duration'', ''num_steps'', ''cfg_strength'',
                                            ''negative_prompt'', ''seed''}) kvs))
           = Inr input"
  then have "TextToAudioInputSchema (JObj kvs) = Inr input"
    by (simp only: text_schema_strips)
  with a show "map req_body (snd (snd (handleTextToAudio P e net st (JObj kvs)))) =
                 [Some (JSON_stringify input)]"
    by (intro text_body) simp_all
qed

text \<open>
  The theorem on the configured server, at the input \<^verbatim>\<open>{volume: 11, video_url:
  "https://example.com/clip.mp4", prompt: "forest sounds"}\<close> to \<^verbatim>\<open>video_to_audio\<close> and at
  the input \<^verbatim>\<open>{prompt: "rain on leaves", volume: 11}\<close> to \<^verbatim>\<open>text_to_audio\<close>: each handler
  does what it does without \<^verbatim>\<open>volume\<close>, and the body of its one request has the fields of
  the contract and no \<^verbatim>\<open>volume\<close>.
\<close>

theorem C10_unrecognized_fields_stripped_witness:
  "handleVideoToAudio example_platform no_env (always (Responded unauthorized_response)) configured
     (JObj [(''volume'', JNum 11), (''video_url'', JStr ''https://example.com/clip.mp4''),
            (''prompt'', JStr ''forest sounds'')]) =
   handleVideoToAudio example_platform no_env (always (Responded unauthorized_response)) configured
     clip_args
   \<and> map req_body (snd (snd (handleVideoToAudio example_platform no_env
         (always (Responded unauthorized_response)) configured
         (JObj [(''volume'', JNum 11), (''video_url'', JStr ''https://example.com/clip.mp4''),
                (''prompt'', JStr ''forest sounds'')])))) =
     [Some (JObj [(''video_url'', JStr ''https://example.com/clip.mp4''),
                  (''prompt'', JStr ''forest sounds''), (''negative_prompt'', JStr []),
                  (''num_steps'', JNum 25), (''duration'', JNum 8),
                  (''cfg_strength'', JNum (9 / 2))])]
   \<and> handleTextToAudio example_platform no_env (always (Responded unauthorized_response)) configured
     (JObj [(''prompt'', JStr ''rain on leaves''), (''volume'', JNum 11)]) =
   handleTextToAudio example_platform no_env (always (Responded unauthorized_response)) configured
     rain_args
   \<and> map req_body (snd (snd (handleTextToAudio example_platform no_env
         (always (Responded unauthorized_response)) configured
         (JObj [(''prompt'', JStr ''rain on leaves''), (''volume'', JNum 11)])))) =
     [Some (JObj [(''prompt'', JStr ''rain on leaves''), (''duration'', JNum 8),
                  (''num_steps'', JNum 25), (''cfg_strength'', JNum (9 / 2)),
                  (''negative_prompt'', JStr []), (''seed'', JNum 0)])]"
proof -
  let ?net = "always (Responded unauthorized_response)"
  let ?vkvs = "[(''volume'', JNum 11), (''video_url'', JStr ''https://example.com/clip.mp4''),
                (''prompt'', JStr ''forest sounds'')]"
  let ?tkvs = "[(''prompt'', JStr ''rain on leaves''), (''volume'', JNum 11)]"
  have cfg: "fst (ensureConfigured example_platform no_env configured) = Inr ()"
    by (simp add: ensureConfigured_def configured_def)
  have vf: "filter (\<lambda>(k, v). k \<in> {''video_url'', ''prompt'', ''negative_prompt'', ''seed'',
                                      ''num_steps'', ''duration'', ''cfg_strength''}) ?vkvs =
            [(''video_url'', JStr ''https://example.com/clip.mp4''),
             (''prompt'', JStr ''forest sounds'')]"
    by simp
  have tf: "filter (\<lambda>(k, v). k \<in> {''prompt'', ''duration'', ''num_steps'', ''cfg_strength'',
                                      ''negative_prompt'', ''seed''}) ?tkvs =
            [(''prompt'', JStr ''rain on leaves'')]"
    by simp
  have vp: "VideoToAudioInputSchema example_platform
              (JObj [(''video_url'', JStr ''https://example.com/clip.mp4''),
                     (''prompt'', JStr ''forest sounds'')]) =
            Inr (JObj [(''video_url'', JStr ''https://example.com/clip.mp4''),
                       (''prompt'', JStr ''forest sounds''), (''negative_prompt'', JStr []),
                       (''num_steps'', JNum 25), (''duration'', JNum 8),
                       (''cfg_strength'', JNum (9 / 2))])"
    by (simp add: VideoToAudioInputSchema_def example_platform_def zod_defs)
  have tp: "TextToAudioInputSchema (JObj [(''prompt'', JStr ''rain on leaves'')]) =
            Inr (JObj [(''prompt'', JStr ''rain on leaves''), (''duration'', JNum 8),
                       (''num_steps'', JNum 25), (''cfg_strength'', JNum (9 / 2)),
                       (''negative_prompt'', JStr []), (''seed'', JNum 0)])"
    by (simp add: TextToAudioInputSchema_def zod_defs)
  note c10 = C10_unrecognized_fields_stripped
                [where P = example_platform and e = no_env and net = ?net and st = configured
                   and args = clip_args]
  from c10 [where kvs = ?vkvs, THEN conjunct1] vf
  have v1: "handleVideoToAudio example_platform no_env ?net configured (JObj ?vkvs) =
            handleVideoToAudio example_platform no_env ?net configured clip_args"
    by (simp only: clip_args_def)
  from c10 [where kvs = ?vkvs, THEN conjunct2, THEN conjunct2, THEN conjunct2,
            THEN conjunct2, THEN conjunct1] cfg vp
  have v2: "map req_body (snd (snd (handleVideoToAudio example_platform no_env ?net configured
              (JObj ?vkvs)))) =
            [Some (JObj [(''video_url'', JStr ''https://example.com/clip.mp4''),
                         (''prompt'', JStr ''forest sounds''), (''negative_prompt'', JStr []),
                         (''num_steps'', JNum 25), (''duration'', JNum 8),
                         (''cfg_strength'', JNum (9 / 2))])]"
    by (simp add: JSON_stringify_def)
  from c10 [where kvs = ?tkvs, THEN conjunct2, THEN conjunct1] tf
  have t1: "handleTextToAudio example_platform no_env ?net configured (JObj ?tkvs) =
            handleTextToAudio example_platform no_env ?net configured rain_args"
    by (simp only: rain_args_def)
  from c10 [where kvs = ?tkvs, THEN conjunct2, THEN conjunct2, THEN conjunct2,
            THEN conjunct2, THEN conjunct2] cfg tp
  have t2: "map req_body (snd (snd (handleTextToAudio example_platform no_env ?net configured
              (JObj ?tkvs)))) =
            [Some (JObj [(''prompt'', JStr ''rain on leaves''), (''duration'', JNum 8),
                         (''num_steps'', JNum 25), (''cfg_strength'', JNum (9 / 2)),
                         (''negative_prompt'', JStr []), (''seed'', JNum 0)])]"
    by (simp only: tf) (simp add: JSON_stringify_def)
  from v1 v2 t1 t2 show ?thesis by simp
qed

section \<open>Validation before dispatch\<close>

lemma video_validation_first:
  assumes "fst (ensureConfigured P e st) = Inr ()"
  shows "(\<forall>issues. VideoToAudioInputSchema P args = Inl issues \<longrightarrow>
            fst (handleVideoToAudio P e net st args) =
              Inl (McpError InvalidParams (''Invalid input parameters: '' @ format_issues issues)) \<and>
            snd (snd (handleVideoToAudio P e net st args)) = [])
       \<and> (\<forall>input. VideoToAudioInputSchema P args = Inr input \<longrightarrow>
            length (snd (snd (handleVideoToAudio P e net st args))) = 1)"
proof -
  obtain st' where ec: "ensureConfigured P e st = (Inr (), st')"
    using assms by (cases "ensureConfigured P e st") auto
  from ensureConfigured_config [OF ec] obtain c where c: "config st' = Some c" by auto
  show ?thesis
    by (simp add: handleVideoToAudio_def videoToAudio_try_def ec c catch_zod_def Let_def
          split: fetch_result.split sum.split)
qed

lemma text_validation_first:
  assumes "fst (ensureConfigured P e st) = Inr ()"
  shows "(\<forall>issues. TextToAudioInputSchema args = Inl issues \<longrightarrow>
            fst (handleTextToAudio P e net st args) =
              Inl (McpError InvalidParams (''Invalid input parameters: '' @ format_issues issues)) \<and>
            snd (snd (handleTextToAudio P e net st args)) = [])
       \<and> (\<forall>input. TextToAudioInputSchema args = Inr input \<longrightarrow>
            length (snd (snd (handleTextToAudio P e net st args))) = 1)"
proof -
  obtain st' where ec: "ensureConfigured P e st = (Inr (), st')"
    using assms by (cases "ensureConfigured P e st") auto
  from ensureConfigured_config [OF ec] obtain c where c: "config st' = Some c" by auto
  show ?thesis
    by (simp add: handleTextToAudio_def textToAudio_try_def ec c catch_zod_def Let_def
          split: fetch_result.split sum.split)
qed

text \<open>
  C1. On a server whose configuration resolves (it is loaded already, as it is once the
  server has started, or the environment yields one), each generation handler validates
  before it dispatches: an input the schema rejects gives the error \<^verbatim>\<open>InvalidParams\<close> with
  the message \<^verbatim>\<open>Invalid input parameters: ...\<close> listing the issues, and no outbound call;
  an input the schema accepts gives exactly one outbound call, whatever the upstream API does.
\<close>

theorem C1_validation_before_dispatch:
  assumes "fst (ensureConfigured P e st) = Inr ()"
  shows "(\<forall>issues. VideoToAudioInputSchema P args = Inl issues \<longrightarrow>
            fst (handleVideoToAudio P e net st args) =
              Inl (McpError InvalidParams (''Invalid input parameters: '' @ format_issues issues)) \<and>
            snd (snd (handleVideoToAudio P e net st args)) = [])
       \<and> (\<forall>input. VideoToAudioInputSchema P args = Inr input \<longrightarrow>
            length (snd (snd (handleVideoToAudio P e net st args))) = 1)
       \<and> (\<forall>issues. TextToAudioInputSchema args = Inl issues \<longrightarrow>
            fst (handleTextToAudio P e net st args) =
              Inl (McpError InvalidParams (''Invalid input parameters: '' @ format_issues issues)) \<and>
            snd (snd (handleTextToAudio P e net st args)) = [])
       \<and> (\<forall>input. TextToAudioInputSchema args = Inr input \<longrightarrow>
            length (snd (snd (handleTextToAudio P e net st args))) = 1)"
  using video_validation_first [OF assms, of args net] text_validation_first [OF assms, of args net]
  by blast

text \<open>
  The theorem on a server that loads its configuration from the environment at the first
  call: \<^verbatim>\<open>text_to_audio\<close> with \<^verbatim>\<open>{duration: 8}\<close>, which lacks the prompt, and with
  \<^verbatim>\<open>{prompt: "rain on leaves"}\<close>; \<^verbatim>\<open>video_to_audio\<close> with no arguments at all and with a
  valid input.
\<close>

theorem C1_validation_before_dispatch_witness:
  "fst (handleTextToAudio example_platform test_env (always (Rejected (JStr ''ECONNREFUSED'')))
          unconfigured (JObj [(''duration'', JNum 8)])) =
     Inl (McpError InvalidParams ''Invalid input parameters: prompt: Required'')
   \<and> snd (snd (handleTextToAudio example_platform test_env
          (always (Rejected (JStr ''ECONNREFUSED''))) unconfigured (JObj [(''duration'', JNum 8)]))) = []
   \<and> length (snd (snd (handleTextToAudio example_platform test_env
          (always (Rejected (JStr ''ECONNREFUSED''))) unconfigured rain_args))) = 1
   \<and> fst (handleVideoToAudio example_platform test_env (always (Rejected (JStr ''ECONNREFUSED'')))
          unconfigured JUndefined) =
     Inl (McpError InvalidParams ''Invalid input parameters: : Required'')
   \<and> snd (snd (handleVideoToAudio example_platform test_env
          (always (Rejected (JStr ''ECONNREFUSED''))) unconfigured JUndefined)) = []
   \<and> length (snd (snd (handleVideoToAudio example_platform test_env
          (always (Rejected (JStr ''ECONNREFUSED''))) unconfigured clip_args))) = 1"
proof -
  let ?net = "always (Rejected (JStr ''ECONNREFUSED''))"
  have cfg: "fst (ensureConfigured example_platform test_env unconfigured) = Inr ()"
    by (simp add: ensureConfigured_def unconfigured_def loadConfig_def ConfigSchema_def
          env_config_def test_env_def env_or_def env_val_def or_default_def parseInt_def
          isWhiteSpace_def digit_of_def example_platform_def zod_defs config_of_def jget_def
          str_of_def num_of_def)
  have t_bad: "TextToAudioInputSchema (JObj [(''duration'', JNum 8)]) =
                 Inl [([''prompt''], ''Required'')]"
    by (simp add: TextToAudioInputSchema_def zod_defs)
  have t_good: "\<exists>input. TextToAudioInputSchema rain_args = Inr input"
    by (simp add: TextToAudioInputSchema_def rain_args_def zod_defs)
  have v_bad: "VideoToAudioInputSchema example_platform JUndefined = Inl [([], ''Required'')]"
    by (simp add: VideoToAudioInputSchema_def zod_defs)
  have v_good: "\<exists>input. VideoToAudioInputSchema example_platform clip_args = Inr input"
    by (simp add: VideoToAudioInputSchema_def clip_args_def example_platform_def zod_defs)
  have fmt: "format_issues [([''prompt''], ''Required'')] = ''prompt: Required''"
    "format_issues [([], ''Required'')] = '': Required''"
    by (simp_all add: format_issues_def)
  from C1_validation_before_dispatch [OF cfg, of "JObj [(''duration'', JNum 8)]" ?net]
       C1_validation_before_dispatch [OF cfg, of rain_args ?net]
       C1_validation_before_dispatch [OF cfg, of JUndefined ?net]
       C1_validation_before_dispatch [OF cfg, of clip_args ?net]
       t_bad t_good v_bad v_good fmt
  show ?thesis by (elim conjE exE) simp
qed

section \<open>The timeout of the configuration\<close>

lemma parseInt_cases: "parseInt s = JNaN \<or> (\<exists>n. parseInt s = JNum n)"
  by (simp add: parseInt_def Let_def)

lemma timeout_field_rejected:
  assumes "v = JNaN \<or> (\<exists>n. v = JNum n \<and> (n < 5000 \<or> 300000 < n))"
  shows "field_issues ''timeout''
           (z_default (JNum 60000) (z_number [num_min 5000, num_max 300000]) v) \<noteq> []"
  using assms
  by (auto simp add: field_issues_def z_default_def z_number_def run_checks_def num_min_def
        num_max_def invalid_type_def)

lemma loadConfig_timeout_rejected:
  assumes "v = JNaN \<or> (\<exists>n. v = JNum n \<and> (n < 5000 \<or> 300000 < n))"
    and "env_config e = JObj [(''apiKey'', a), (''baseUrl'', b), (''timeout'', v)]"
  shows "\<exists>m. loadConfig P e st = (Inl (McpError InvalidRequest (''Configuration error: '' @ m)), st)"
  using timeout_field_rejected [OF assms(1)]
  by (simp add: loadConfig_def ConfigSchema_def assms(2) z_object_JObj lookup_Cons)

lemma loadConfig_timeout_accepted:
  assumes "5000 \<le> n" and "n \<le> 300000" and "k \<noteq> []" and "isUrl P u"
    and "env_config e = JObj [(''apiKey'', JStr k), (''baseUrl'', JStr u), (''timeout'', JNum n)]"
  shows "loadConfig P e st =
           (Inr (), st\<lparr>config := Some \<lparr>apiKey = k, baseUrl = u, timeout = n\<rparr>\<rparr>)"
  using assms(1-4)
  by (simp add: loadConfig_def ConfigSchema_def assms(5) zod_defs config_of_def jget_def
        str_of_def num_of_def Suc_le_eq)

text \<open>
  C4, as the code has it. The timeout of the configuration is the integer that
  \<^verbatim>\<open>parseInt\<close> reads from the environment (\<^verbatim>\<open>MMAUDIO_TIMEOUT\<close>, else \<^verbatim>\<open>timeout\<close>, else
  \<^verbatim>\<open>60000\<close>): the leading digits, or \<^verbatim>\<open>NaN\<close> when there are none. When this is not a
  number of \<open>[5000, 300000]\<close>, \<^verbatim>\<open>loadConfig\<close> throws a configuration error and leaves the
  server as it was: the value is rejected, not clamped. When it is a number of
  \<open>[5000, 300000]\<close>, and the key is set and the base URL is one, the configuration is stored
  with exactly this number.
\<close>

theorem C4_timeout_range_enforced:
  "((\<forall>n. parseInt (or_default (env_or (e ''MMAUDIO_TIMEOUT'') (e ''timeout'')) ''60000'') = JNum n
          \<longrightarrow> n < 5000 \<or> 300000 < n) \<longrightarrow>
      (\<exists>m. loadConfig P e st =
             (Inl (McpError InvalidRequest (''Configuration error: '' @ m)), st)))
   \<and> (\<forall>n k. parseInt (or_default (env_or (e ''MMAUDIO_TIMEOUT'') (e ''timeout'')) ''60000'') = JNum n
          \<and> 5000 \<le> n \<and> n \<le> 300000
          \<and> env_or (e ''MMAUDIO_API_KEY'') (e ''apiKey'') = Some k \<and> k \<noteq> []
          \<and> isUrl P (or_default (env_or (e ''MMAUDIO_BASE_URL'') (e ''baseUrl''))
                        ''https://mmaudio.net'') \<longrightarrow>
        loadConfig P e st =
          (Inr (),
           st\<lparr>config := Some
                \<lparr>apiKey = k,
                 baseUrl = or_default (env_or (e ''MMAUDIO_BASE_URL'') (e ''baseUrl''))
                             ''https://mmaudio.net'',
                 timeout = n\<rparr>\<rparr>))"
proof (intro conjI allI impI)
  let ?v = "parseInt (or_default (env_or (e ''MMAUDIO_TIMEOUT'') (e ''timeout'')) ''60000'')"
  assume a: "\<forall>n. ?v = JNum n \<longrightarrow> n < 5000 \<or> 300000 < n"
  from parseInt_cases [of "or_default (env_or (e ''MMAUDIO_TIMEOUT'') (e ''timeout'')) ''60000''"] a
  have "?v = JNaN \<or> (\<exists>n. ?v = JNum n \<and> (n < 5000 \<or> 300000 < n))"
    by auto
  then show "\<exists>m. loadConfig P e st =
                 (Inl (McpError InvalidRequest (''Configuration error: '' @ m)), st)"
    by (rule loadConfig_timeout_rejected) (simp add: env_config_def)
next
  fix n k
  let ?u = "or_default (env_or (e ''MMAUDIO_BASE_URL'') (e ''baseUrl'')) ''https://mmaudio.net''"
  assume a: "parseInt (or_default (env_or (e ''MMAUDIO_TIMEOUT'') (e ''timeout'')) ''60000'') = JNum n
          \<and> 5000 \<le> n \<and> n \<le> 300000
          \<and> env_or (e ''MMAUDIO_API_KEY'') (e ''apiKey'') = Some k \<and> k \<noteq> []
          \<and> isUrl P ?u"
  then have "env_config e = JObj [(''apiKey'', JStr k), (''baseUrl'', JStr ?u), (''timeout'', JNum n)]"
    by (simp add: env_config_def env_val_def)
  with a show "loadConfig P e st =
                 (Inr (), st\<lparr>config := Some \<lparr>apiKey = k, baseUrl = ?u, timeout = n\<rparr>\<rparr>)"
    by (intro loadConfig_timeout_accepted) simp_all
qed

lemma parseInt_1000: "parseInt ''1000'' = JNum 1000"
  by (simp add: parseInt_def isWhiteSpace_def digit_of_def)

lemma parseInt_fraction: "parseInt ''300000.9'' = JNum 300000"
  by (simp add: parseInt_def isWhiteSpace_def digit_of_def)

lemma parseInt_suffix: "parseInt ''60000ms'' = JNum 60000"
  by (simp add: parseInt_def isWhiteSpace_def digit_of_def)

text \<open>
  The theorem at \<^verbatim>\<open>MMAUDIO_API_KEY=test-key MMAUDIO_TIMEOUT=1000\<close>, which is rejected, and
  at \<^verbatim>\<open>MMAUDIO_API_KEY=test-key MMAUDIO_TIMEOUT=300000.9\<close>, which resolves with the timeout
  300000.
\<close>

theorem C4_timeout_range_enforced_witness:
  "(\<exists>m. loadConfig example_platform short_timeout_env unconfigured =
         (Inl (McpError InvalidRequest (''Configuration error: '' @ m)), unconfigured))
   \<and> loadConfig example_platform fractional_timeout_env unconfigured =
       (Inr (), \<lparr>config = Some \<lparr>apiKey = ''test-key'', baseUrl = ''https://mmaudio.net'',
                                 timeout = 300000\<rparr>\<rparr>)"
proof -
  have "or_default (env_or (short_timeout_env ''MMAUDIO_TIMEOUT'') (short_timeout_env ''timeout''))
          ''60000'' = ''1000''"
    by (simp add: short_timeout_env_def env_or_def or_default_def)
  then have small: "\<forall>n. parseInt (or_default (env_or (short_timeout_env ''MMAUDIO_TIMEOUT'')
                                (short_timeout_env ''timeout'')) ''60000'') = JNum n
               \<longrightarrow> n < 5000 \<or> 300000 < n"
    by (simp add: parseInt_1000)
  have frac: "parseInt (or_default (env_or (fractional_timeout_env ''MMAUDIO_TIMEOUT'')
                          (fractional_timeout_env ''timeout'')) ''60000'') = JNum 300000"
    "env_or (fractional_timeout_env ''MMAUDIO_API_KEY'') (fractional_timeout_env ''apiKey'') =
       Some ''test-key''"
    "or_default (env_or (fractional_timeout_env ''MMAUDIO_BASE_URL'')
                   (fractional_timeout_env ''baseUrl'')) ''https://mmaudio.net'' =
       ''https://mmaudio.net''"
    by (simp_all add: fractional_timeout_env_def env_or_def or_default_def parseInt_fraction)
  have url: "isUrl example_platform ''https://mmaudio.net''"
    by (simp add: example_platform_def)
  from C4_timeout_range_enforced [of short_timeout_env example_platform unconfigured] small
  have one: "\<exists>m. loadConfig example_platform short_timeout_env unconfigured =
         (Inl (McpError InvalidRequest (''Configuration error: '' @ m)), unconfigured)"
    by blast
  from C4_timeout_range_enforced [of fractional_timeout_env example_platform unconfigured] frac url
  have "loadConfig example_platform fractional_timeout_env unconfigured =
          (Inr (), unconfigured\<lparr>config := Some \<lparr>apiKey = ''test-key'',
                     baseUrl = ''https://mmaudio.net'', timeout = 300000\<rparr>\<rparr>)"
    by simp
  then have two: "loadConfig example_platform fractional_timeout_env unconfigured =
       (Inr (), \<lparr>config = Some \<lparr>apiKey = ''test-key'', baseUrl = ''https://mmaudio.net'',
                                 timeout = 300000\<rparr>\<rparr>)"
    by (simp add: unconfigured_def)
  from one two show ?thesis by simp
qed

text \<open>
  The claim as the specification states it, that such a value is clamped and resolution
  succeeds, fails at \<^verbatim>\<open>MMAUDIO_API_KEY=test-key MMAUDIO_TIMEOUT=1000\<close>: the key and the
  default base URL pass, the one issue is the timeout's, and no configuration is stored.
\<close>

theorem C4_timeout_not_clamped:
  "loadConfig example_platform short_timeout_env unconfigured =
     (Inl (McpError InvalidRequest
        (''Configuration error: '' @
         zodErrorMessage example_platform
           [([''timeout''], ''Number must be greater than or equal to 5000'')])),
      unconfigured)"
proof -
  have url: "isUrl example_platform ''https://mmaudio.net''"
    by (simp add: example_platform_def)
  have env: "env_config short_timeout_env =
     JObj [(''apiKey'', JStr ''test-key''), (''baseUrl'', JStr ''https://mmaudio.net''),
           (''timeout'', JNum 1000)]"
    by (simp add: env_config_def short_timeout_env_def env_or_def env_val_def or_default_def
          parseInt_1000)
  show ?thesis
    by (simp add: loadConfig_def ConfigSchema_def env url zod_defs show_nat_bounds)
qed

section \<open>Upstream responses that are not 2xx\<close>






text \<open>A number as the \<^verbatim>\<open>error\<close> field: the message of the error is its decimal text.\<close>

lemma new_Error_number: "new_Error P (JNum 42) = Error (JStr ''42'')"
  by (simp add: new_Error_def show_integer_def show_nat.simps)


lemma clip_args_accepted:
  "VideoToAudioInputSchema example_platform clip_args =
     Inr (JObj [(''video_url'', JStr ''https://example.com/clip.mp4''),
                (''prompt'', JStr ''forest sounds''), (''negative_prompt'', JStr []),
                (''num_steps'', JNum 25), (''duration'', JNum 8),
                (''cfg_strength'', JNum (9 / 2))])"
  by (simp add: clip_args_def VideoToAudioInputSchema_def example_platform_def zod_defs)



section \<open>Upstream responses that break the contract\<close>

text \<open>
  C2, evaluated. \<^verbatim>\<open>video_to_audio\<close> on the configured server with a valid input, answered
  by a 200 whose descriptor lacks \<^verbatim>\<open>file_size\<close>: the field is not defaulted, the handler
  throws; but the \<^verbatim>\<open>ZodError\<close> of the response schema is caught by the \<^verbatim>\<open>catch\<close> written
  for the input schema, so the error has the code \<^verbatim>\<open>InvalidParams\<close> and the message
  \<^verbatim>\<open>Invalid input parameters: ...\<close>, as the error for an input without its required fields
  has.
\<close>

theorem C2_contract_violation_reported_as_invalid_input:
  "fst (handleVideoToAudio example_platform no_env (always (Responded sizeless_response))
          configured clip_args) =
     Inl (McpError InvalidParams ''Invalid input parameters: video.file_size: Required'')
   \<and> fst (handleVideoToAudio example_platform no_env (always (Responded sizeless_response))
          configured (JObj [])) =
     Inl (McpError InvalidParams ''Invalid input parameters: video_url: Required, prompt: Required'')"
proof -
  have resp: "VideoToAudioResponseSchema example_platform
                (JObj [(''video'', JObj [(''url'', JStr ''https://cdn.example.com/out.wav''),
                                         (''content_type'', JStr ''audio/wav''),
                                         (''file_name'', JStr ''out.wav'')])]) =
              Inl [([''video'', ''file_size''], ''Required'')]"
    by (simp add: VideoToAudioResponseSchema_def AudioResponseSchema_def example_platform_def
          zod_defs)
  have empty: "VideoToAudioInputSchema example_platform (JObj []) =
                 Inl [([''video_url''], ''Required''), ([''prompt''], ''Required'')]"
    by (simp add: VideoToAudioInputSchema_def zod_defs)
  show ?thesis
    by (simp add: handleVideoToAudio_def ensureConfigured_def configured_def videoToAudio_try_def
          clip_args_accepted empty always_def ok_def sizeless_response_def resp catch_zod_def
          format_issues_def)
qed

section \<open>Key validation\<close>

text \<open>What \<^verbatim>\<open>handleValidateApiKey\<close> does on an arguments object, by the key it selects.\<close>

lemma validate_no_key:
  assumes "\<not> truthy (lookup kvs ''api_key'')"
    and "config st = None \<or> (\<exists>c. config st = Some c \<and> apiKey c = [])"
  shows "handleValidateApiKey net st (JObj kvs) =
           (Inl (McpError InvalidRequest ''No API key provided''), st, [])"
  using assms by (auto simp add: handleValidateApiKey_def js_or_def Let_def)

lemma validate_calls_override:
  assumes "truthy (lookup kvs ''api_key'')"
  shows "snd (snd (handleValidateApiKey net st (JObj kvs))) =
           [credits_request
              (case config st of None \<Rightarrow> ''https://mmaudio.net''
               | Some c \<Rightarrow> if baseUrl c = [] then ''https://mmaudio.net'' else baseUrl c)
              (lookup kvs ''api_key'')]"
  using assms
  by (simp add: handleValidateApiKey_def js_or_def Let_def split: sum.split)

lemma validate_calls_configured:
  assumes "\<not> truthy (lookup kvs ''api_key'')" and "config st = Some c" and "apiKey c \<noteq> []"
  shows "snd (snd (handleValidateApiKey net st (JObj kvs))) =
           [credits_request (if baseUrl c = [] then ''https://mmaudio.net'' else baseUrl c)
              (JStr (apiKey c))]"
  using assms
  by (simp add: handleValidateApiKey_def js_or_def Let_def split: sum.split)

lemma validate_returns_after_call:
  assumes "snd (snd (handleValidateApiKey net st args)) = [req]"
  shows "fst (handleValidateApiKey net st args) =
           Inr (TextContent (case validate_try (net req) of
                               Inl m \<Rightarrow> failed_validation_envelope m
                             | Inr envelope \<Rightarrow> envelope))"
  using assms
  by (auto simp add: handleValidateApiKey_def Let_def split: sum.splits if_splits)

text \<open>
  C7. Whenever \<^verbatim>\<open>handleValidateApiKey\<close> has issued its request, it returns an envelope and
  throws nothing: for a 401 response the envelope with \<^verbatim>\<open>valid: false\<close> and the error
  \<^verbatim>\<open>Authentication failed\<close>, for a transport failure the envelope with \<^verbatim>\<open>valid: false\<close>
  and the failure's own message.
\<close>

theorem C7_validate_failures_are_envelopes:
  assumes "snd (snd (handleValidateApiKey net st args)) = [req]"
  shows "\<not> isl (fst (handleValidateApiKey net st args))
       \<and> (\<forall>r. net req = Responded r \<and> resp_status r = 401 \<longrightarrow>
            fst (handleValidateApiKey net st args) = Inr (TextContent invalid_key_envelope))
       \<and> (\<forall>m. net req = Rejected m \<longrightarrow>
            fst (handleValidateApiKey net st args) =
              Inr (TextContent (failed_validation_envelope m)))
       \<and> jget invalid_key_envelope ''valid'' = JBool False
       \<and> jget invalid_key_envelope ''error'' = JStr ''Authentication failed''
       \<and> jget (failed_validation_envelope m') ''valid'' = JBool False
       \<and> jget (failed_validation_envelope m') ''error'' = m'"
  using validate_returns_after_call [OF assms]
  by (auto simp add: validate_try_def invalid_key_envelope_def failed_validation_envelope_def
        jget_def lookup_def)

text \<open>
  The theorem at a call with the key \<^verbatim>\<open>sk-test\<close> on a server without configuration,
  answered by a 401, and at a call without arguments' key on the configured server, when the
  host cannot be resolved.
\<close>

theorem C7_validate_failures_are_envelopes_witness:
  "fst (handleValidateApiKey (always (Responded unauthorized_response)) unconfigured
          (JObj [(''api_key'', JStr ''sk-test'')])) = Inr (TextContent invalid_key_envelope)
   \<and> fst (handleValidateApiKey (always (Rejected (JStr ''getaddrinfo ENOTFOUND mmaudio.net'')))
          configured (JObj [])) =
       Inr (TextContent (failed_validation_envelope (JStr ''getaddrinfo ENOTFOUND mmaudio.net'')))"
proof -
  let ?n1 = "always (Responded unauthorized_response)"
  let ?n2 = "always (Rejected (JStr ''getaddrinfo ENOTFOUND mmaudio.net''))"
  have c1: "snd (snd (handleValidateApiKey ?n1 unconfigured (JObj [(''api_key'', JStr ''sk-test'')]))) =
              [credits_request ''https://mmaudio.net'' (JStr ''sk-test'')]"
    by (simp add: validate_calls_override lookup_def unconfigured_def)
  have c2: "snd (snd (handleValidateApiKey ?n2 configured (JObj []))) =
              [credits_request ''https://mmaudio.net'' (JStr ''test-key'')]"
    by (simp add: validate_calls_configured [where c = "\<lparr>apiKey = ''test-key'',
          baseUrl = ''https://mmaudio.net'', timeout = 60000\<rparr>"] lookup_def configured_def)
  have r1: "?n1 (credits_request ''https://mmaudio.net'' (JStr ''sk-test'')) =
              Responded unauthorized_response \<and> resp_status unauthorized_response = 401"
    by (simp add: always_def unauthorized_response_def)
  have r2: "?n2 (credits_request ''https://mmaudio.net'' (JStr ''test-key'')) =
              Rejected (JStr ''getaddrinfo ENOTFOUND mmaudio.net'')"
    by (simp add: always_def)
  from C7_validate_failures_are_envelopes [OF c1] r1
  have one: "fst (handleValidateApiKey ?n1 unconfigured (JObj [(''api_key'', JStr ''sk-test'')])) =
               Inr (TextContent invalid_key_envelope)"
    by blast
  from C7_validate_failures_are_envelopes [OF c2] r2
  have two: "fst (handleValidateApiKey ?n2 configured (JObj [])) =
               Inr (TextContent (failed_validation_envelope (JStr ''getaddrinfo ENOTFOUND mmaudio.net'')))"
    by blast
  from one two show ?thesis by simp
qed

text \<open>
  The selection of the key on an arguments object: with no (truthy) \<^verbatim>\<open>api_key\<close> and no
  configured key, \<^verbatim>\<open>handleValidateApiKey\<close> throws
  \<^verbatim>\<open>McpError(InvalidRequest, 'No API key provided')\<close> and issues no request; with an
  \<^verbatim>\<open>api_key\<close> it issues one request that carries this key; and with none but a
  configured key, one request that carries the configured key.
\<close>

lemma validate_key_selection:
  "(\<not> truthy (lookup kvs ''api_key'') \<and>
      (config st = None \<or> (\<exists>c. config st = Some c \<and> apiKey c = [])) \<longrightarrow>
        fst (handleValidateApiKey net st (JObj kvs)) =
          Inl (McpError InvalidRequest ''No API key provided'') \<and>
        snd (snd (handleValidateApiKey net st (JObj kvs))) = [])
   \<and> (truthy (lookup kvs ''api_key'') \<longrightarrow>
        map req_headers (snd (snd (handleValidateApiKey net st (JObj kvs)))) =
          [[(''Authorization'', Bearer (lookup kvs ''api_key'')),
            (''User-Agent'', Plain ''MMAudio-DXT/1.0.0'')]])
   \<and> (\<forall>c. \<not> truthy (lookup kvs ''api_key'') \<and> config st = Some c \<and> apiKey c \<noteq> [] \<longrightarrow>
        map req_headers (snd (snd (handleValidateApiKey net st (JObj kvs)))) =
          [[(''Authorization'', Bearer (JStr (apiKey c))),
            (''User-Agent'', Plain ''MMAudio-DXT/1.0.0'')]])"
proof (intro conjI allI impI)
  assume a: "\<not> truthy (lookup kvs ''api_key'') \<and>
      (config st = None \<or> (\<exists>c. config st = Some c \<and> apiKey c = []))"
  then have "handleValidateApiKey net st (JObj kvs) =
               (Inl (McpError InvalidRequest ''No API key provided''), st, [])"
    by (intro validate_no_key) simp_all
  then show "fst (handleValidateApiKey net st (JObj kvs)) =
               Inl (McpError InvalidRequest ''No API key provided'')"
    and "snd (snd (handleValidateApiKey net st (JObj kvs))) = []"
    by simp_all
next
  assume "truthy (lookup kvs ''api_key'')"
  then show "map req_headers (snd (snd (handleValidateApiKey net st (JObj kvs)))) =
          [[(''Authorization'', Bearer (lookup kvs ''api_key'')),
            (''User-Agent'', Plain ''MMAudio-DXT/1.0.0'')]]"
    by (simp add: validate_calls_override credits_request_def)
next
  fix c assume "\<not> truthy (lookup kvs ''api_key'') \<and> config st = Some c \<and> apiKey c \<noteq> []"
  then show "map req_headers (snd (snd (handleValidateApiKey net st (JObj kvs)))) =
          [[(''Authorization'', Bearer (JStr (apiKey c))),
            (''User-Agent'', Plain ''MMAudio-DXT/1.0.0'')]]"
    by (simp add: validate_calls_configured credits_request_def)
qed

text \<open>
  C8, evaluated where the code fails it. A call of \<^verbatim>\<open>validate_api_key\<close> may omit its
  arguments (the tool requires none), and is then a call with no key override. The handler
  reads \<^verbatim>\<open>args.api_key\<close> of \<^verbatim>\<open>undefined\<close> first, which throws a TypeError: on the
  configured server the configured key is not used and no request is issued, and on a server
  without configuration the error is not the one for a missing key.
\<close>

theorem C8_omitted_arguments_throw:
  "handleValidateApiKey net configured JUndefined =
     (Inl (Error (JStr (typeError_message ''undefined'' ''api_key''))), configured, [])
   \<and> handleValidateApiKey net unconfigured JUndefined =
     (Inl (Error (JStr (typeError_message ''undefined'' ''api_key''))), unconfigured, [])
   \<and> handleValidateApiKey net unconfigured (JObj []) =
     (Inl (McpError InvalidRequest ''No API key provided''), unconfigured, [])
   \<and> map req_headers (snd (snd (handleValidateApiKey net configured (JObj [])))) =
     [[(''Authorization'', Bearer (JStr ''test-key'')),
       (''User-Agent'', Plain ''MMAudio-DXT/1.0.0'')]]"
  by (simp add: handleValidateApiKey_def configured_def unconfigured_def lookup_def js_or_def
        credits_request_def Let_def split: sum.split)



section \<open>text\_to\_audio with a prompt only\<close>

text \<open>
  C5. For the input \<^verbatim>\<open>{prompt: "rain on leaves"}\<close> to \<^verbatim>\<open>text_to_audio\<close>, validation succeeds
  with the defaults \<^verbatim>\<open>duration = 8\<close>, \<^verbatim>\<open>num_steps = 25\<close>, \<^verbatim>\<open>cfg_strength = 4.5\<close>,
  \<^verbatim>\<open>seed = 0\<close> and \<^verbatim>\<open>negative_prompt = ""\<close> filled in, and a configured server issues one
  request whose body has exactly these five fields and the prompt, whatever the configuration
  and the upstream API are.
\<close>

theorem C5_text_to_audio_defaults:
  "TextToAudioInputSchema (JObj [(''prompt'', JStr ''rain on leaves'')]) =
     Inr (JObj [(''prompt'', JStr ''rain on leaves''), (''duration'', JNum 8),
                (''num_steps'', JNum 25), (''cfg_strength'', JNum (9 / 2)),
                (''negative_prompt'', JStr []), (''seed'', JNum 0)])
   \<and> map req_body (snd (snd (handleTextToAudio P e net \<lparr>config = Some c\<rparr>
                               (JObj [(''prompt'', JStr ''rain on leaves'')])))) =
     [Some (JObj [(''prompt'', JStr ''rain on leaves''), (''duration'', JNum 8),
                  (''num_steps'', JNum 25), (''cfg_strength'', JNum (9 / 2)),
                  (''negative_prompt'', JStr []), (''seed'', JNum 0)])]"
proof -
  have parsed: "TextToAudioInputSchema (JObj [(''prompt'', JStr ''rain on leaves'')]) =
     Inr (JObj [(''prompt'', JStr ''rain on leaves''), (''duration'', JNum 8),
                (''num_steps'', JNum 25), (''cfg_strength'', JNum (9 / 2)),
                (''negative_prompt'', JStr []), (''seed'', JNum 0)])"
    by (simp add: TextToAudioInputSchema_def zod_defs)
  show ?thesis
    by (simp add: handleTextToAudio_def ensureConfigured_def textToAudio_try_def parsed
          generation_request_def JSON_stringify_def Let_def
        split: fetch_result.split sum.split prod.split)
qed

end
